theory Spec2Isabelle
  imports Main "HOL-Library.Sublist"
begin

text \<open>
  The repository holds four variants of a protoc plugin that generates a browser client
  for the methods of a Twirp service, each a \<open>main\<close> package of its own:
  \<^item> main.go, the class generator: a TypeScript class per message, with member types by
    \<open>getTypeScriptType\<close> and constructor statements by \<open>initiate\<close>, and one fetch wrapper
    per method;
  \<^item> the interface variant, also TypeScript: the wrapper rebuilds the response as an object
    literal written by \<open>genField\<close>, whose branches are timestamp, map, repeated, message
    and primitive;
  \<^item> the first JavaScript variant: \<open>genField\<close> with the branches repeated, message and
    primitive;
  \<^item> the second JavaScript variant: \<open>genField\<close> with the branches map, repeated, message
    and primitive.

  Functions whose text is the same in several variants (\<open>zv\<close>, \<open>isMap\<close>, \<open>isRepeated\<close>,
  \<open>isMessage\<close>, \<open>isTimestamp\<close>) are modelled once. The constants that model the
  interface variant end in \<open>_000\<close>, those of the two JavaScript variants in \<open>_001\<close> and
  \<open>_002\<close>.
\<close>

section \<open>Descriptor data model\<close>

text \<open>
  The generator reads a \<open>CodeGeneratorRequest\<close>: files, each with a package name,
  message descriptors and service descriptors. Only the parts of the descriptors that the
  generator reads are modelled. Optional string members are modelled as set; the accessors
  on a nil message pointer (\<open>GetName\<close>, \<open>GetField\<close>) return the zero value, as the
  generated Go accessors do.
\<close>

datatype FieldDescriptorProto_Type =
    TYPE_DOUBLE | TYPE_FLOAT | TYPE_INT64 | TYPE_UINT64 | TYPE_INT32
  | TYPE_FIXED64 | TYPE_FIXED32 | TYPE_BOOL | TYPE_STRING | TYPE_GROUP
  | TYPE_MESSAGE | TYPE_BYTES | TYPE_UINT32 | TYPE_ENUM | TYPE_SFIXED32
  | TYPE_SFIXED64 | TYPE_SINT32 | TYPE_SINT64

datatype FieldDescriptorProto_Label = LABEL_OPTIONAL | LABEL_REQUIRED | LABEL_REPEATED

record FieldDescriptorProto =
  fName :: string
  fType :: FieldDescriptorProto_Type
  fTypeName :: string
  fLabel :: FieldDescriptorProto_Label

datatype DescriptorProto =
  DescriptorProto (message_name: string)
                  (message_field: "FieldDescriptorProto list")
                  (message_nested_type: "DescriptorProto list")

record MethodDescriptorProto =
  method_name :: string
  method_input_type :: string
  method_output_type :: string

record ServiceDescriptorProto =
  service_name :: string
  service_method :: "MethodDescriptorProto list"

record FileDescriptorProto =
  file_package :: string
  file_message_type :: "DescriptorProto list"
  file_service :: "ServiceDescriptorProto list"

record CodeGeneratorRequest =
  FileToGenerate :: "string list"
  ProtoFile :: "FileDescriptorProto list"

text \<open>The global \<open>messages\<close> map: qualified name to message descriptor pointer.\<close>

type_synonym message_map = "string \<Rightarrow> DescriptorProto option"

text \<open>Run-time panics of the Go program.\<close>

datatype error = IndexOutOfRange | NilPointerDereference

text \<open>Nil-safe accessors on a looked-up (possibly nil) descriptor pointer.\<close>

definition GetName :: "DescriptorProto option \<Rightarrow> string" where
  "GetName p = (case p of None \<Rightarrow> [] | Some m \<Rightarrow> message_name m)"

definition GetField :: "DescriptorProto option \<Rightarrow> FieldDescriptorProto list" where
  "GetField p = (case p of None \<Rightarrow> [] | Some m \<Rightarrow> message_field m)"

section \<open>Library functions of package strings\<close>

definition strings_HasSuffix :: "string \<Rightarrow> string \<Rightarrow> bool" where
  "strings_HasSuffix s suf \<longleftrightarrow>
     length suf \<le> length s \<and> drop (length s - length suf) s = suf"

fun strings_Join :: "string list \<Rightarrow> string \<Rightarrow> string" where
  "strings_Join [] sep = []"
| "strings_Join [x] sep = x"
| "strings_Join (x # y # ys) sep = x @ sep @ strings_Join (y # ys) sep"

text \<open>\<open>strings.Split\<close> for a one-character separator; the result is never empty.\<close>

fun strings_Split :: "string \<Rightarrow> char \<Rightarrow> string list" where
  "strings_Split [] sep = [[]]"
| "strings_Split (c # cs) sep =
     (if c = sep then [] # strings_Split cs sep
      else (case strings_Split cs sep of
              [] \<Rightarrow> [[c]]
            | p # ps \<Rightarrow> (c # p) # ps))"

text \<open>\<open>parts[len(parts)-1]\<close> for \<open>parts := strings.Split(s, ".")\<close>.\<close>

definition last_part :: "string \<Rightarrow> string" where
  "last_part s = (let parts = strings_Split s (CHR ''.'') in parts ! (length parts - 1))"

text \<open>
  \<open>strings.Replace(s, old, new, -1)\<close> for a non-empty \<open>old\<close>: every non-overlapping
  occurrence, from the left.
\<close>

function strings_Replace :: "string \<Rightarrow> string \<Rightarrow> string \<Rightarrow> string" where
  "strings_Replace [] old new = []"
| "strings_Replace (c # cs) old new =
     (if old \<noteq> [] \<and> prefix old (c # cs)
      then new @ strings_Replace (drop (length old) (c # cs)) old new
      else c # strings_Replace cs old new)"
  by pat_completeness auto
termination
  by (relation "measure (\<lambda>(s, old, new). length s)") auto

section \<open>Field predicates and zero values (identical in every variant)\<close>

definition isRepeated :: "FieldDescriptorProto_Label \<Rightarrow> bool" where
  "isRepeated label \<longleftrightarrow> label = LABEL_REPEATED"

definition isMessage :: "FieldDescriptorProto_Type \<Rightarrow> bool" where
  "isMessage t \<longleftrightarrow> t = TYPE_MESSAGE"

definition isMap :: "string \<Rightarrow> bool" where
  "isMap typeName \<longleftrightarrow> strings_HasSuffix typeName ''Entry''"

definition isTimestamp :: "string \<Rightarrow> bool" where
  "isTimestamp typeName \<longleftrightarrow> typeName = ''.google.protobuf.Timestamp''"

fun zv :: "FieldDescriptorProto_Type \<Rightarrow> string" where
  "zv TYPE_DOUBLE = ''0''"
| "zv TYPE_FLOAT = ''0''"
| "zv TYPE_INT64 = ''0''"
| "zv TYPE_UINT64 = ''0''"
| "zv TYPE_INT32 = ''0''"
| "zv TYPE_FIXED64 = ''0''"
| "zv TYPE_FIXED32 = ''0''"
| "zv TYPE_UINT32 = ''0''"
| "zv TYPE_SFIXED32 = ''0''"
| "zv TYPE_SFIXED64 = ''0''"
| "zv TYPE_SINT32 = ''0''"
| "zv TYPE_SINT64 = ''0''"
| "zv TYPE_BOOL = ''false''"
| "zv TYPE_STRING = ''\"\"''"
| "zv _ = ''{}''"

section \<open>The class generator (main.go)\<close>

text \<open>
  \<open>getTypeScriptType\<close>: the type switch on the field's tag, with the timestamp, map and
  message cases under \<open>default\<close>; the map case indexes \<open>message.GetNestedType()[0]\<close> and
  the first two fields of that nested type, and panics when they do not exist.
\<close>

function getTypeScriptType :: "DescriptorProto \<Rightarrow> FieldDescriptorProto \<Rightarrow> error + string" where
  "getTypeScriptType message field =
     (case
        (case fType field of
           TYPE_DOUBLE \<Rightarrow> Inr ''number''
         | TYPE_FLOAT \<Rightarrow> Inr ''number''
         | TYPE_INT64 \<Rightarrow> Inr ''number''
         | TYPE_UINT64 \<Rightarrow> Inr ''number''
         | TYPE_INT32 \<Rightarrow> Inr ''number''
         | TYPE_FIXED64 \<Rightarrow> Inr ''number''
         | TYPE_FIXED32 \<Rightarrow> Inr ''number''
         | TYPE_UINT32 \<Rightarrow> Inr ''number''
         | TYPE_SFIXED32 \<Rightarrow> Inr ''number''
         | TYPE_SFIXED64 \<Rightarrow> Inr ''number''
         | TYPE_SINT32 \<Rightarrow> Inr ''number''
         | TYPE_SINT64 \<Rightarrow> Inr ''number''
         | TYPE_BOOL \<Rightarrow> Inr ''boolean''
         | TYPE_STRING \<Rightarrow> Inr ''string''
         | _ \<Rightarrow>
             (if isTimestamp (fTypeName field) then Inr ''string''
              else if isMap (fTypeName field) then
                (case message_nested_type message of
                   [] \<Rightarrow> Inl IndexOutOfRange
                 | msg # _ \<Rightarrow>
                     (case message_field msg of
                        key # value # _ \<Rightarrow>
                          (case getTypeScriptType msg key of
                             Inl e \<Rightarrow> Inl e
                           | Inr k \<Rightarrow>
                               (case getTypeScriptType msg value of
                                  Inl e \<Rightarrow> Inl e
                                | Inr v \<Rightarrow> Inr (''{ [name: '' @ k @ '']: '' @ v @ '' }'')))
                      | _ \<Rightarrow> Inl IndexOutOfRange))
              else Inr (last_part (fTypeName field))))
      of
        Inl e \<Rightarrow> Inl e
      | Inr result \<Rightarrow>
          (if isRepeated (fLabel field) \<and> \<not> isMap (fTypeName field)
           then Inr (result @ ''[]'')
           else Inr result))"
  by pat_completeness auto
termination
  apply (relation "measure (\<lambda>(m, f). size m)")
   apply simp
  apply (case_tac message; simp)+
  done

declare getTypeScriptType.simps [simp del]

text \<open>
  \<open>initiate\<close>: one constructor statement per field. The branches are tested in the
  order map, repeated, timestamp, message, primitive.
\<close>

definition initiate :: "DescriptorProto \<Rightarrow> FieldDescriptorProto \<Rightarrow> error + string" where
  "initiate message field =
     (if isMap (fTypeName field) then
        (case message_nested_type message of
           [] \<Rightarrow> Inl IndexOutOfRange
         | msg # _ \<Rightarrow>
             (case message_field msg of
                _ # value # _ \<Rightarrow>
                  (case getTypeScriptType msg value of
                     Inl e \<Rightarrow> Inl e
                   | Inr t \<Rightarrow>
                       Inr (''this.'' @ fName field @ '' = Object.entries(o.'' @ fName field
                            @ '').reduce((a, [k, v]) => {a[k] = new '' @ t
                            @ ''(v || {}); return a}, {})''))
              | _ \<Rightarrow> Inl IndexOutOfRange))
      else if isRepeated (fLabel field) then
        Inr (''this.'' @ fName field @ '' = o.'' @ fName field @ '' || []'')
      else if isTimestamp (fTypeName field) then
        Inr (''this.'' @ fName field @ '' = o.'' @ fName field @ '' || \"\"'')
      else if isMessage (fType field) then
        Inr (''this.'' @ fName field @ '' = new '' @ last_part (fTypeName field)
             @ ''(o.'' @ fName field @ '' || {})'')
      else
        Inr (''this.'' @ fName field @ '' = o.'' @ fName field @ '' || '' @ zv (fType field)))"

text \<open>
  The template \<open>class\<close> executed on one message: the member declarations
  (\<open>getTypeScriptType\<close> per field), then the constructor statements (\<open>initiate\<close> per
  field). A panic of a template function makes \<open>Execute\<close> return an error, on which
  \<open>main\<close> panics.
\<close>

fun range_fields ::
  "(FieldDescriptorProto \<Rightarrow> error + string) \<Rightarrow> FieldDescriptorProto list \<Rightarrow> error + string" where
  "range_fields g [] = Inr []"
| "range_fields g (f # fs) =
     (case g f of
        Inl e \<Rightarrow> Inl e
      | Inr s \<Rightarrow> (case range_fields g fs of Inl e \<Rightarrow> Inl e | Inr r \<Rightarrow> Inr (s @ r)))"

definition class_template :: "DescriptorProto \<Rightarrow> error + string" where
  "class_template message =
     (case range_fields
             (\<lambda>field. case getTypeScriptType message field of
                        Inl e \<Rightarrow> Inl e
                      | Inr t \<Rightarrow> Inr (''\<newline>  '' @ fName field @ '': '' @ t))
             (message_field message) of
        Inl e \<Rightarrow> Inl e
      | Inr members \<Rightarrow>
          (case range_fields
                  (\<lambda>field. case initiate message field of
                             Inl e \<Rightarrow> Inl e
                           | Inr t \<Rightarrow> Inr (''\<newline>    '' @ t))
                  (message_field message) of
             Inl e \<Rightarrow> Inl e
           | Inr statements \<Rightarrow>
               Inr (''\<newline>export class '' @ message_name message @ '' {''
                    @ members
                    @ ''\<newline>  constructor(o) {''
                    @ statements
                    @ ''\<newline>  }\<newline>}\<newline>'')))"

definition isBuiltIn :: "string \<Rightarrow> bool" where
  "isBuiltIn name \<longleftrightarrow>
     (name = ''Empty'' \<or> name = ''Timestamp'' \<or> name = ''DoubleValue'' \<or> name = ''FloatValue''
      \<or> name = ''Int64Value'' \<or> name = ''UInt64Value'' \<or> name = ''Int32Value''
      \<or> name = ''Fixed64Value'' \<or> name = ''Fixed32Value'' \<or> name = ''BoolValue''
      \<or> name = ''StringValue'' \<or> name = ''GroupValue'' \<or> name = ''MessageValue''
      \<or> name = ''BytesValue'' \<or> name = ''UInt32Value'' \<or> name = ''EnumValue''
      \<or> name = ''Sfixed32Value'' \<or> name = ''Sfixed64Value'' \<or> name = ''Sint32Value''
      \<or> name = ''Sint64Value'')"

record Method =
  m_Service :: string
  m_Name :: string
  m_OutputType :: string
  m_InputType :: string

abbreviation TAB :: string where
  "TAB \<equiv> [CHR 0x09]"

text \<open>The body of \<open>range .Methods\<close> in the template \<open>blueprint\<close>, for one method.\<close>

definition blueprint_method :: "Method \<Rightarrow> string" where
  "blueprint_method m =
     ''\<newline>export const '' @ m_Name m @ '' = async (input: '' @ m_InputType m
       @ ''): Promise<'' @ m_OutputType m @ ''> => {\<newline>''
     @ TAB @ ''const meta = document.querySelector('meta[name=\"csrf-token\"]') as HTMLMetaElement\<newline>''
     @ TAB @ ''const token = meta.content\<newline>''
     @ TAB @ ''const res = await fetch('/twirp/trpc.'' @ m_Service m @ ''/'' @ m_Name m @ ''', {\<newline>''
     @ TAB @ TAB @ ''headers: {\<newline>''
     @ TAB @ TAB @ TAB @ '''X-CSRF-Token': token,\<newline>''
     @ TAB @ TAB @ TAB @ '''Content-Type': 'application/json'\<newline>''
     @ TAB @ TAB @ ''},\<newline>''
     @ TAB @ TAB @ ''credentials: 'same-origin',\<newline>''
     @ TAB @ TAB @ ''method: 'POST',\<newline>''
     @ TAB @ TAB @ ''body: JSON.stringify(input)\<newline>''
     @ TAB @ ''})\<newline>''
     @ TAB @ ''if (res.status !== 200) {\<newline>''
     @ TAB @ TAB @ ''throw new Error(res.statusText)\<newline>''
     @ TAB @ ''}\<newline>''
     @ TAB @ ''const data = await res.json()\<newline>''
     @ TAB @ ''return new '' @ m_OutputType m @ ''(data)\<newline>''
     @ ''}\<newline>''"

text \<open>
  The template \<open>blueprint\<close> executed on \<open>Methods\<close>: the leading line break is trimmed
  by \<open>{{- range\<close>, the one after \<open>{{end}}\<close> stays.
\<close>

definition blueprint :: "Method list \<Rightarrow> string" where
  "blueprint ms = concat (map blueprint_method ms) @ ''\<newline>''"

text \<open>The package-level variables \<open>messages\<close>, \<open>classes\<close> and \<open>Methods\<close>.\<close>

record globals =
  g_messages :: message_map
  g_classes :: "string list"
  g_Methods :: "Method list"

definition init_globals :: globals where
  "init_globals =
     \<lparr>g_messages = Map.empty,
      g_classes = [''export class Empty extends Object{}\<newline>'',
                 ''\<newline>'',
                 ''export class StringValue extends String{}\<newline>'',
                 ''\<newline>'',
                 ''export class UInt64Value extends Number{}\<newline>''],
      g_Methods = []\<rparr>"

text \<open>One iteration of \<open>for _, message := range f.MessageType\<close>.\<close>

definition register_message :: "string \<Rightarrow> DescriptorProto \<Rightarrow> message_map \<Rightarrow> message_map" where
  "register_message package message ms =
     (let key = ''.'' @ package @ ''.'' @ message_name message
      in fold (\<lambda>t acc. acc(key @ ''.'' @ message_name t \<mapsto> t))
              (message_nested_type message)
              (ms(key \<mapsto> message)))"

definition message_step :: "string \<Rightarrow> DescriptorProto \<Rightarrow> globals \<Rightarrow> error + globals" where
  "message_step package message g =
     (case (if \<not> isBuiltIn (message_name message)
            then (case class_template message of
                    Inl e \<Rightarrow> Inl e
                  | Inr c \<Rightarrow> Inr (g\<lparr>g_classes := g_classes g @ [c]\<rparr>))
            else Inr g) of
        Inl e \<Rightarrow> Inl e
      | Inr g1 \<Rightarrow> Inr (g1\<lparr>g_messages := register_message package message (g_messages g1)\<rparr>))"

fun message_loop :: "string \<Rightarrow> DescriptorProto list \<Rightarrow> globals \<Rightarrow> error + globals" where
  "message_loop package [] g = Inr g"
| "message_loop package (message # rest) g =
     (case message_step package message g of
        Inl e \<Rightarrow> Inl e
      | Inr g1 \<Rightarrow> message_loop package rest g1)"

text \<open>One iteration of \<open>for _, method := range service.Method\<close>.\<close>

definition method_step :: "ServiceDescriptorProto \<Rightarrow> MethodDescriptorProto \<Rightarrow> globals \<Rightarrow> globals" where
  "method_step service method g =
     (let outputType = g_messages g (method_output_type method);
          inputType = g_messages g (method_input_type method);
          m = \<lparr>m_Service = service_name service,
               m_Name = method_name method,
               m_OutputType = GetName outputType,
               m_InputType = GetName inputType\<rparr>
      in g\<lparr>g_Methods := g_Methods g @ [m]\<rparr>)"

definition service_loop :: "ServiceDescriptorProto list \<Rightarrow> globals \<Rightarrow> globals" where
  "service_loop services g =
     fold (\<lambda>service g1. fold (method_step service) (service_method service) g1) services g"

fun file_loop :: "FileDescriptorProto list \<Rightarrow> globals \<Rightarrow> error + globals" where
  "file_loop [] g = Inr g"
| "file_loop (f # fs) g =
     (case message_loop (file_package f) (file_message_type f) g of
        Inl e \<Rightarrow> Inl e
      | Inr g1 \<Rightarrow> file_loop fs (service_loop (file_service f) g1))"

text \<open>The generated file of the \<open>CodeGeneratorResponse\<close>.\<close>

record CodeGeneratorResponse_File =
  file_Name :: string
  file_Content :: string

text \<open>
  \<open>main\<close> of main.go from the decoded request to the response file, started on the
  initial values of the package-level variables.
\<close>

definition main_go :: "CodeGeneratorRequest \<Rightarrow> error + CodeGeneratorResponse_File" where
  "main_go req =
     (case file_loop (ProtoFile req) init_globals of
        Inl e \<Rightarrow> Inl e
      | Inr g \<Rightarrow>
          (let tmp = blueprint (g_Methods g) in
           case FileToGenerate req of
             [] \<Rightarrow> Inl IndexOutOfRange
           | first # _ \<Rightarrow>
               Inr \<lparr>file_Name = strings_Replace first ''.proto'' ''.ts'',
                    file_Content = concat (g_classes g) @ tmp\<rparr>))"

section \<open>The object-literal generator \<open>genField\<close> (interface variant)\<close>

text \<open>
  The \<open>for i, f := range ff\<close> loop writing to a buffer. A panic in the body ends the
  run (\<open>Some (Inl e)\<close>); \<open>None\<close> is a body that has not returned.
\<close>

fun for_range ::
  "(nat \<Rightarrow> 'a \<Rightarrow> (error + string) option) \<Rightarrow> nat \<Rightarrow> 'a list \<Rightarrow> string
     \<Rightarrow> (error + string) option" where
  "for_range body i [] b = Some (Inr b)"
| "for_range body i (f # fs) b =
     (case body i f of
        None \<Rightarrow> None
      | Some (Inl e) \<Rightarrow> Some (Inl e)
      | Some (Inr s) \<Rightarrow> for_range body (Suc i) fs (b @ s))"

text \<open>
  The separator of the \<open>i\<close>-th of \<open>n\<close> fields: \<open>colon := ","\<close>, reset to the empty
  string when \<open>len(ff)-1 == i\<close>.
\<close>

definition colon :: "nat \<Rightarrow> nat \<Rightarrow> string" where
  "colon n i = (if int n - 1 = int i then [] else '','')"

text \<open>
  The loop body of \<open>genField\<close> in the variant that emits TypeScript interfaces.
  \<open>rec\<close> is the recursive call \<open>genField(fields, ids...)\<close>. The branches are tested
  in the order timestamp, map, repeated, message, primitive.
\<close>

definition genField_000_body ::
  "(FieldDescriptorProto list \<Rightarrow> string list \<Rightarrow> (error + string) option) \<Rightarrow> message_map
     \<Rightarrow> nat \<Rightarrow> string list \<Rightarrow> nat \<Rightarrow> FieldDescriptorProto \<Rightarrow> (error + string) option" where
  "genField_000_body rec messages n id_path i f =
     (let m = messages (fTypeName f) in
      if isTimestamp (fTypeName f) then
        Some (Inr (fName f @ '': '' @ strings_Join (id_path @ [fName f]) ''.'' @ '' || \"\"''
                   @ colon n i @ ''\<newline>''))
      else if isMap (fTypeName f) then
        (case GetField (messages (fTypeName f)) of
           _ # nestedValue # _ \<Rightarrow>
             (case rec (GetField (messages (fTypeName nestedValue))) [''v''] of
                None \<Rightarrow> None
              | Some (Inl e) \<Rightarrow> Some (Inl e)
              | Some (Inr inner) \<Rightarrow>
                  Some (Inr (fName f @ '': Object.entries('' @ strings_Join (id_path @ [fName f]) ''.''
                             @ '').reduce((a, [k, v]) => {\<newline>''
                             @ ''a[k] = {\<newline>''
                             @ inner
                             @ ''}\<newline>''
                             @ ''return a\<newline>''
                             @ ''}, {})'' @ colon n i @ ''\<newline>'')))
         | _ \<Rightarrow> Some (Inl IndexOutOfRange))
      else if isRepeated (fLabel f) then
        (let joined = strings_Join (id_path @ [fName f]) ''.'';
             fields = GetField m
         in if length fields = 0 then
              Some (Inr (fName f @ '': '' @ joined @ '' ? '' @ joined @ ''.map(v => {\<newline>''
                         @ ''return v || '' @ zv (fType f) @ ''\<newline>''
                         @ ''}) : []'' @ colon n i @ ''\<newline>''))
            else
              (case rec fields [''v''] of
                 None \<Rightarrow> None
               | Some (Inl e) \<Rightarrow> Some (Inl e)
               | Some (Inr inner) \<Rightarrow>
                   Some (Inr (fName f @ '': '' @ joined @ '' ? '' @ joined @ ''.map(v => {\<newline>''
                              @ ''return {\<newline>''
                              @ inner
                              @ ''}\<newline>''
                              @ ''}) : []'' @ colon n i @ ''\<newline>''))))
      else if isMessage (fType f) then
        (case rec (GetField m) (id_path @ [fName f]) of
           None \<Rightarrow> None
         | Some (Inl e) \<Rightarrow> Some (Inl e)
         | Some (Inr inner) \<Rightarrow>
             Some (Inr (fName f @ '': {\<newline>'' @ inner @ ''}'' @ colon n i @ ''\<newline>'')))
      else
        Some (Inr (fName f @ '': '' @ strings_Join (id_path @ [fName f]) ''.'' @ '' || ''
                   @ zv (fType f) @ colon n i @ ''\<newline>'')))"

text \<open>
  \<open>genField\<close> recurses through the \<open>messages\<close> map, which may describe a message that
  contains itself, so the recursion depth is bounded by a fuel argument: \<open>None\<close> when the
  fuel does not suffice.
\<close>

primrec genField_000 ::
  "nat \<Rightarrow> message_map \<Rightarrow> FieldDescriptorProto list \<Rightarrow> string list \<Rightarrow> (error + string) option" where
  "genField_000 0 messages ff id_path = None"
| "genField_000 (Suc fuel) messages ff id_path =
     for_range (genField_000_body (genField_000 fuel messages) messages (length ff) id_path) 0 ff []"

section \<open>The object-literal generators of the JavaScript variants\<close>

text \<open>
  The loop body of \<open>genField\<close> in the first JavaScript variant: repeated, message,
  primitive. There is no timestamp and no map branch.
\<close>

definition genField_001_body ::
  "(FieldDescriptorProto list \<Rightarrow> string list \<Rightarrow> (error + string) option) \<Rightarrow> message_map
     \<Rightarrow> nat \<Rightarrow> string list \<Rightarrow> nat \<Rightarrow> FieldDescriptorProto \<Rightarrow> (error + string) option" where
  "genField_001_body rec messages n id_path i f =
     (let m = messages (fTypeName f) in
      if isRepeated (fLabel f) then
        (let joined = strings_Join (id_path @ [fName f]) ''.'';
             fields = GetField m
         in if length fields = 0 then
              Some (Inr (fName f @ '': '' @ joined @ ''.map(v => {\<newline>''
                         @ ''return v || '' @ zv (fType f) @ ''\<newline>''
                         @ ''})'' @ colon n i @ ''\<newline>''))
            else
              (case rec fields [''v''] of
                 None \<Rightarrow> None
               | Some (Inl e) \<Rightarrow> Some (Inl e)
               | Some (Inr inner) \<Rightarrow>
                   Some (Inr (fName f @ '': '' @ joined @ ''.map(v => {\<newline>''
                              @ ''return {\<newline>''
                              @ inner
                              @ ''}\<newline>''
                              @ ''})'' @ colon n i @ ''\<newline>''))))
      else if isMessage (fType f) then
        (case rec (GetField m) (id_path @ [fName f]) of
           None \<Rightarrow> None
         | Some (Inl e) \<Rightarrow> Some (Inl e)
         | Some (Inr inner) \<Rightarrow>
             Some (Inr (fName f @ '': {\<newline>'' @ inner @ ''}'' @ colon n i @ ''\<newline>'')))
      else
        Some (Inr (fName f @ '': '' @ strings_Join (id_path @ [fName f]) ''.'' @ '' || ''
                   @ zv (fType f) @ colon n i @ ''\<newline>'')))"

primrec genField_001 ::
  "nat \<Rightarrow> message_map \<Rightarrow> FieldDescriptorProto list \<Rightarrow> string list \<Rightarrow> (error + string) option" where
  "genField_001 0 messages ff id_path = None"
| "genField_001 (Suc fuel) messages ff id_path =
     for_range (genField_001_body (genField_001 fuel messages) messages (length ff) id_path) 0 ff []"

text \<open>
  The loop body of \<open>genField\<close> in the second JavaScript variant: map, repeated, message,
  primitive.
\<close>

definition genField_002_body ::
  "(FieldDescriptorProto list \<Rightarrow> string list \<Rightarrow> (error + string) option) \<Rightarrow> message_map
     \<Rightarrow> nat \<Rightarrow> string list \<Rightarrow> nat \<Rightarrow> FieldDescriptorProto \<Rightarrow> (error + string) option" where
  "genField_002_body rec messages n id_path i f =
     (let m = messages (fTypeName f) in
      if isMap (fTypeName f) then
        (case GetField (messages (fTypeName f)) of
           _ # nestedValue # _ \<Rightarrow>
             (case rec (GetField (messages (fTypeName nestedValue))) [''v''] of
                None \<Rightarrow> None
              | Some (Inl e) \<Rightarrow> Some (Inl e)
              | Some (Inr inner) \<Rightarrow>
                  Some (Inr (fName f @ '': Object.entries('' @ strings_Join (id_path @ [fName f]) ''.''
                             @ '').reduce((a, [k, v]) => {\<newline>''
                             @ ''a[k] = {\<newline>''
                             @ inner
                             @ ''}\<newline>''
                             @ ''return a\<newline>''
                             @ ''}, {})'' @ colon n i @ ''\<newline>'')))
         | _ \<Rightarrow> Some (Inl IndexOutOfRange))
      else if isRepeated (fLabel f) then
        (let joined = strings_Join (id_path @ [fName f]) ''.'';
             fields = GetField m
         in if length fields = 0 then
              Some (Inr (fName f @ '': '' @ joined @ ''.map(v => {\<newline>''
                         @ ''return v || '' @ zv (fType f) @ ''\<newline>''
                         @ ''})'' @ colon n i @ ''\<newline>''))
            else
              (case rec fields [''v''] of
                 None \<Rightarrow> None
               | Some (Inl e) \<Rightarrow> Some (Inl e)
               | Some (Inr inner) \<Rightarrow>
                   Some (Inr (fName f @ '': '' @ joined @ ''.map(v => {\<newline>''
                              @ ''return {\<newline>''
                              @ inner
                              @ ''}\<newline>''
                              @ ''})'' @ colon n i @ ''\<newline>''))))
      else if isMessage (fType f) then
        (case rec (GetField m) (id_path @ [fName f]) of
           None \<Rightarrow> None
         | Some (Inl e) \<Rightarrow> Some (Inl e)
         | Some (Inr inner) \<Rightarrow>
             Some (Inr (fName f @ '': {\<newline>'' @ inner @ ''}'' @ colon n i @ ''\<newline>'')))
      else
        Some (Inr (fName f @ '': '' @ strings_Join (id_path @ [fName f]) ''.'' @ '' || ''
                   @ zv (fType f) @ colon n i @ ''\<newline>'')))"

primrec genField_002 ::
  "nat \<Rightarrow> message_map \<Rightarrow> FieldDescriptorProto list \<Rightarrow> string list \<Rightarrow> (error + string) option" where
  "genField_002 0 messages ff id_path = None"
| "genField_002 (Suc fuel) messages ff id_path =
     for_range (genField_002_body (genField_002 fuel messages) messages (length ff) id_path) 0 ff []"

section \<open>The method templates of the JavaScript variants\<close>

record Method_js =
  js_Name :: string
  js_OutputName :: string
  js_Field :: string

text \<open>The body of \<open>range .Methods\<close> in the first JavaScript variant's \<open>blueprint\<close>.\<close>

definition blueprint_001_method :: "string \<Rightarrow> Method_js \<Rightarrow> string" where
  "blueprint_001_method ServiceName m =
     ''\<newline>const '' @ js_Name m @ '' = async (input) => {\<newline>''
     @ TAB @ ''const res = await fetch('twirp/trpc.'' @ ServiceName @ ''/'' @ js_Name m @ ''', {\<newline>''
     @ TAB @ TAB @ ''headers: {\<newline>''
     @ TAB @ TAB @ TAB @ '''Content-Type': 'application/json'\<newline>''
     @ TAB @ TAB @ ''},\<newline>''
     @ TAB @ TAB @ ''method: 'POST',\<newline>''
     @ TAB @ TAB @ ''body: JSON.stringify(input)\<newline>''
     @ TAB @ ''})\<newline>''
     @ TAB @ ''const data = await res.json()\<newline>''
     @ TAB @ js_Field m @ ''\<newline>''
     @ TAB @ ''return '' @ js_OutputName m @ ''\<newline>''
     @ ''}\<newline>''"

definition blueprint_001 :: "Method_js list \<Rightarrow> string \<Rightarrow> string \<Rightarrow> string" where
  "blueprint_001 ms ServiceName Exports =
     ''\<newline>'' @ concat (map (blueprint_001_method ServiceName) ms)
     @ ''\<newline>'' @ Exports @ ''\<newline>''"

text \<open>The body of \<open>range .Methods\<close> in the second JavaScript variant's \<open>blueprint\<close>.\<close>

definition blueprint_002_method :: "string \<Rightarrow> Method_js \<Rightarrow> string" where
  "blueprint_002_method ServiceName m =
     ''\<newline>const '' @ js_Name m @ '' = async (input) => {\<newline>''
     @ TAB @ ''const token = document.querySelector('meta[name=\"csrf-token\"]').content\<newline>''
     @ TAB @ ''const res = await fetch('/twirp/trpc.'' @ ServiceName @ ''/'' @ js_Name m @ ''', {\<newline>''
     @ TAB @ TAB @ ''headers: {\<newline>''
     @ TAB @ TAB @ TAB @ '''X-CSRF-Token': token,\<newline>''
     @ TAB @ TAB @ TAB @ '''Content-Type': 'application/json'\<newline>''
     @ TAB @ TAB @ ''},\<newline>''
     @ TAB @ TAB @ ''credentials: 'same-origin',\<newline>''
     @ TAB @ TAB @ ''method: 'POST',\<newline>''
     @ TAB @ TAB @ ''body: JSON.stringify(input)\<newline>''
     @ TAB @ ''})\<newline>''
     @ TAB @ ''const data = await res.json()\<newline>''
     @ TAB @ js_Field m @ ''\<newline>''
     @ TAB @ ''return '' @ js_OutputName m @ ''\<newline>''
     @ ''}\<newline>''"

definition blueprint_002 :: "Method_js list \<Rightarrow> string \<Rightarrow> string \<Rightarrow> string" where
  "blueprint_002 ms ServiceName Exports =
     ''\<newline>'' @ concat (map (blueprint_002_method ServiceName) ms)
     @ ''\<newline>'' @ Exports @ ''\<newline>''"

text \<open>\<open>export\<close>: the last line of the generated file, naming every generated function.\<close>

definition export :: "Method_js list \<Rightarrow> string" where
  "export ms = ''export {'' @ strings_Join (map js_Name ms) '', '' @ ''}''"

section \<open>\<open>main\<close> of the second JavaScript variant\<close>

record globals_js =
  js_messages :: message_map
  js_Methods :: "Method_js list"

text \<open>
  One iteration of the method loop. \<open>outputType.Field\<close> reads a member through the
  looked-up pointer and panics when the pointer is nil.
\<close>

definition method_step_002 ::
  "nat \<Rightarrow> MethodDescriptorProto \<Rightarrow> globals_js \<Rightarrow> (error + globals_js) option" where
  "method_step_002 fuel method g =
     (let outputType = js_messages g (method_output_type method) in
      case outputType of
        None \<Rightarrow> Some (Inl NilPointerDereference)
      | Some t \<Rightarrow>
          (case genField_002 fuel (js_messages g) (message_field t) [''data''] of
             None \<Rightarrow> None
           | Some (Inl e) \<Rightarrow> Some (Inl e)
           | Some (Inr inner) \<Rightarrow>
               Some (Inr (g\<lparr>js_Methods := js_Methods g @
                   [\<lparr>js_Name = method_name method,
                     js_OutputName = GetName outputType,
                     js_Field = ''const '' @ GetName outputType @ '' = {\<newline>''
                                @ inner @ ''}\<newline>''\<rparr>]\<rparr>))))"

fun method_loop_002 ::
  "nat \<Rightarrow> MethodDescriptorProto list \<Rightarrow> globals_js \<Rightarrow> (error + globals_js) option" where
  "method_loop_002 fuel [] g = Some (Inr g)"
| "method_loop_002 fuel (method # rest) g =
     (case method_step_002 fuel method g of
        None \<Rightarrow> None
      | Some (Inl e) \<Rightarrow> Some (Inl e)
      | Some (Inr g1) \<Rightarrow> method_loop_002 fuel rest g1)"

fun service_loop_002 ::
  "nat \<Rightarrow> ServiceDescriptorProto list \<Rightarrow> globals_js \<Rightarrow> (error + globals_js) option" where
  "service_loop_002 fuel [] g = Some (Inr g)"
| "service_loop_002 fuel (service # rest) g =
     (case method_loop_002 fuel (service_method service) g of
        None \<Rightarrow> None
      | Some (Inl e) \<Rightarrow> Some (Inl e)
      | Some (Inr g1) \<Rightarrow> service_loop_002 fuel rest g1)"

text \<open>
  The message loop registers every message and its nested types; the class text it
  builds is only logged.
\<close>

fun file_loop_002 ::
  "nat \<Rightarrow> FileDescriptorProto list \<Rightarrow> globals_js \<Rightarrow> (error + globals_js) option" where
  "file_loop_002 fuel [] g = Some (Inr g)"
| "file_loop_002 fuel (f # fs) g =
     (case service_loop_002 fuel (file_service f)
             (g\<lparr>js_messages :=
                  fold (register_message (file_package f)) (file_message_type f) (js_messages g)\<rparr>) of
        None \<Rightarrow> None
      | Some (Inl e) \<Rightarrow> Some (Inl e)
      | Some (Inr g1) \<Rightarrow> file_loop_002 fuel fs g1)"

definition main_002 :: "nat \<Rightarrow> CodeGeneratorRequest \<Rightarrow> (error + CodeGeneratorResponse_File) option" where
  "main_002 fuel req =
     (case file_loop_002 fuel (ProtoFile req) \<lparr>js_messages = Map.empty, js_Methods = []\<rparr> of
        None \<Rightarrow> None
      | Some (Inl e) \<Rightarrow> Some (Inl e)
      | Some (Inr g) \<Rightarrow>
          (let tmp = blueprint_002 (js_Methods g) ''Haberdasher'' (export (js_Methods g)) in
           case FileToGenerate req of
             [] \<Rightarrow> Some (Inl IndexOutOfRange)
           | first # _ \<Rightarrow>
               Some (Inr \<lparr>file_Name = strings_Replace first ''.proto'' ''.js'',
                          file_Content = tmp\<rparr>)))"

section \<open>Field categories\<close>

text \<open>
  The category of a field is the branch that the generator takes for it. Each classifier
  below lists the tests of one generator in the order in which that generator makes them.
\<close>

datatype category = Timestamp | Map | Repeated | Message | Scalar

text \<open>The branch of \<open>genField\<close> in the interface variant.\<close>

definition classify_000 :: "FieldDescriptorProto \<Rightarrow> category" where
  "classify_000 f =
     (if isTimestamp (fTypeName f) then Timestamp
      else if isMap (fTypeName f) then Map
      else if isRepeated (fLabel f) then Repeated
      else if isMessage (fType f) then Message
      else Scalar)"

text \<open>The branch of \<open>genField\<close> in the first JavaScript variant.\<close>

definition classify_001 :: "FieldDescriptorProto \<Rightarrow> category" where
  "classify_001 f =
     (if isRepeated (fLabel f) then Repeated
      else if isMessage (fType f) then Message
      else Scalar)"

text \<open>The branch of \<open>genField\<close> in the second JavaScript variant.\<close>

definition classify_002 :: "FieldDescriptorProto \<Rightarrow> category" where
  "classify_002 f =
     (if isMap (fTypeName f) then Map
      else if isRepeated (fLabel f) then Repeated
      else if isMessage (fType f) then Message
      else Scalar)"

text \<open>The branch of \<open>initiate\<close> in main.go.\<close>

definition classify_initiate :: "FieldDescriptorProto \<Rightarrow> category" where
  "classify_initiate f =
     (if isMap (fTypeName f) then Map
      else if isRepeated (fLabel f) then Repeated
      else if isTimestamp (fTypeName f) then Timestamp
      else if isMessage (fType f) then Message
      else Scalar)"

text \<open>
  The two guards that the generators emit for a source expression \<open>p\<close>: the
  conditional \<open>p ? ... : ...\<close> and the default \<open>p || ...\<close>.
\<close>

definition guards_source :: "string \<Rightarrow> string \<Rightarrow> bool" where
  "guards_source p code \<longleftrightarrow> sublist (p @ '' ? '') code \<or> sublist (p @ '' || '') code"

section \<open>Example schemas\<close>

definition field_x :: FieldDescriptorProto where
  "field_x = \<lparr>fName = ''x'', fType = TYPE_DOUBLE, fTypeName = [], fLabel = LABEL_OPTIONAL\<rparr>"

definition field_y :: FieldDescriptorProto where
  "field_y = \<lparr>fName = ''y'', fType = TYPE_DOUBLE, fTypeName = [], fLabel = LABEL_OPTIONAL\<rparr>"

definition Point :: DescriptorProto where
  "Point = DescriptorProto ''Point'' [field_x, field_y] []"

definition field_stamps :: FieldDescriptorProto where
  "field_stamps = \<lparr>fName = ''stamps'', fType = TYPE_MESSAGE,
                    fTypeName = ''.google.protobuf.Timestamp'', fLabel = LABEL_REPEATED\<rparr>"


definition field_tags :: FieldDescriptorProto where
  "field_tags = \<lparr>fName = ''tags'', fType = TYPE_STRING, fTypeName = [], fLabel = LABEL_REPEATED\<rparr>"

definition field_key :: FieldDescriptorProto where
  "field_key = \<lparr>fName = ''key'', fType = TYPE_STRING, fTypeName = [], fLabel = LABEL_OPTIONAL\<rparr>"

definition field_value_info :: FieldDescriptorProto where
  "field_value_info = \<lparr>fName = ''value'', fType = TYPE_MESSAGE,
                        fTypeName = ''.shop.Info'', fLabel = LABEL_OPTIONAL\<rparr>"

definition field_value_number :: FieldDescriptorProto where
  "field_value_number = \<lparr>fName = ''value'', fType = TYPE_INT32,
                          fTypeName = [], fLabel = LABEL_OPTIONAL\<rparr>"

definition field_id :: FieldDescriptorProto where
  "field_id = \<lparr>fName = ''id'', fType = TYPE_INT64, fTypeName = [], fLabel = LABEL_OPTIONAL\<rparr>"

definition Info :: DescriptorProto where
  "Info = DescriptorProto ''Info'' [field_id] []"

definition MetaEntry :: DescriptorProto where
  "MetaEntry = DescriptorProto ''MetaEntry'' [field_key, field_value_info] []"

definition CountsEntry :: DescriptorProto where
  "CountsEntry = DescriptorProto ''CountsEntry'' [field_key, field_value_number] []"

definition field_meta :: FieldDescriptorProto where
  "field_meta = \<lparr>fName = ''meta'', fType = TYPE_MESSAGE,
                  fTypeName = ''.shop.Item.MetaEntry'', fLabel = LABEL_REPEATED\<rparr>"

definition field_counts :: FieldDescriptorProto where
  "field_counts = \<lparr>fName = ''counts'', fType = TYPE_MESSAGE,
                    fTypeName = ''.shop.Item.CountsEntry'', fLabel = LABEL_REPEATED\<rparr>"

text \<open>A message with two map fields, \<open>map<string, Info> meta\<close> and \<open>map<string, int32> counts\<close>.\<close>

definition Item :: DescriptorProto where
  "Item = DescriptorProto ''Item'' [field_meta, field_counts] [MetaEntry, CountsEntry]"


definition method_get_info :: MethodDescriptorProto where
  "method_get_info = \<lparr>method_name = ''GetInfo'', method_input_type = ''.shop.Info'',
                       method_output_type = ''.shop.Info''\<rparr>"

definition service_users :: ServiceDescriptorProto where
  "service_users = \<lparr>service_name = ''Users'', service_method = [method_get_info]\<rparr>"

text \<open>A schema with one message and a service \<open>Users\<close> with one method.\<close>

definition users_request :: CodeGeneratorRequest where
  "users_request =
     \<lparr>FileToGenerate = [''shop.proto''],
      ProtoFile = [\<lparr>file_package = ''shop'', file_message_type = [Info],
                    file_service = [service_users]\<rparr>]\<rparr>"



definition method_example :: Method where
  "method_example = \<lparr>m_Service = ''Users'', m_Name = ''GetInfo'', m_OutputType = ''Info'',
                      m_InputType = ''Info''\<rparr>"

definition method_js_example :: Method_js where
  "method_js_example = \<lparr>js_Name = ''GetInfo'', js_OutputName = ''Info'',
                         js_Field = ''const Info = {\<newline>id: data.id || 0\<newline>}\<newline>''\<rparr>"

section \<open>Helper lemmas\<close>


lemma isTimestamp_not_isMap: "isTimestamp s \<Longrightarrow> \<not> isMap s"
  by (simp add: isTimestamp_def isMap_def strings_HasSuffix_def)

lemma sublist_mid: "sublist p (a @ p @ b)"
  by (auto simp: sublist_def)

text \<open>
  Fuel. A result that \<open>genField\<close> reaches with some fuel, a text or a panic, is the result
  with any larger fuel.
\<close>

lemma for_range_mono:
  assumes "\<And>i f r. body i f = Some r \<Longrightarrow> body' i f = Some r"
  shows "for_range body i fs b = Some r \<Longrightarrow> for_range body' i fs b = Some r"
proof (induction fs arbitrary: i b)
  case Nil
  then show ?case by simp
next
  case (Cons f fs)
  from Cons.prems obtain x where x: "body i f = Some x"
    by (cases "body i f") auto
  then have x': "body' i f = Some x" by (rule assms)
  show ?case
  proof (cases x)
    case (Inl e)
    with x x' Cons.prems show ?thesis by auto
  next
    case (Inr s)
    with x Cons.prems have "for_range body (Suc i) fs (b @ s) = Some r" by simp
    then have "for_range body' (Suc i) fs (b @ s) = Some r" by (rule Cons.IH)
    with x' Inr show ?thesis by simp
  qed
qed

lemma genField_000_body_mono:
  assumes "\<And>ff ids r. rec ff ids = Some r \<Longrightarrow> rec' ff ids = Some r"
    and "genField_000_body rec ms n id_path i f = Some r"
  shows "genField_000_body rec' ms n id_path i f = Some r"
  using assms(2)
  unfolding genField_000_body_def Let_def
  by (auto split: if_splits list.splits option.splits sum.splits dest!: assms(1))

lemma genField_000_mono:
  "genField_000 n ms ff id_path = Some r \<Longrightarrow> genField_000 (Suc n) ms ff id_path = Some r"
proof (induction n arbitrary: ff id_path r)
  case 0
  then show ?case by simp
next
  case (Suc n)
  have "for_range (genField_000_body (genField_000 (Suc n) ms) ms (length ff) id_path) 0 ff [] = Some r"
  proof (rule for_range_mono[where body = "genField_000_body (genField_000 n ms) ms (length ff) id_path"])
    fix i f r'
    assume "genField_000_body (genField_000 n ms) ms (length ff) id_path i f = Some r'"
    then show "genField_000_body (genField_000 (Suc n) ms) ms (length ff) id_path i f = Some r'"
      by (rule genField_000_body_mono[rotated]) (rule Suc.IH)
  next
    show "for_range (genField_000_body (genField_000 n ms) ms (length ff) id_path) 0 ff [] = Some r"
      using Suc.prems by simp
  qed
  then show ?case by simp
qed

lemma genField_002_body_mono:
  assumes "\<And>ff ids r. rec ff ids = Some r \<Longrightarrow> rec' ff ids = Some r"
    and "genField_002_body rec ms n id_path i f = Some r"
  shows "genField_002_body rec' ms n id_path i f = Some r"
  using assms(2)
  unfolding genField_002_body_def Let_def
  by (auto split: if_splits list.splits option.splits sum.splits dest!: assms(1))

lemma genField_002_mono:
  "genField_002 n ms ff id_path = Some r \<Longrightarrow> genField_002 (Suc n) ms ff id_path = Some r"
proof (induction n arbitrary: ff id_path r)
  case 0
  then show ?case by simp
next
  case (Suc n)
  have "for_range (genField_002_body (genField_002 (Suc n) ms) ms (length ff) id_path) 0 ff [] = Some r"
  proof (rule for_range_mono[where body = "genField_002_body (genField_002 n ms) ms (length ff) id_path"])
    fix i f r'
    assume "genField_002_body (genField_002 n ms) ms (length ff) id_path i f = Some r'"
    then show "genField_002_body (genField_002 (Suc n) ms) ms (length ff) id_path i f = Some r'"
      by (rule genField_002_body_mono[rotated]) (rule Suc.IH)
  next
    show "for_range (genField_002_body (genField_002 n ms) ms (length ff) id_path) 0 ff [] = Some r"
      using Suc.prems by simp
  qed
  then show ?case by simp
qed

lemma genField_001_body_mono:
  assumes "\<And>ff ids r. rec ff ids = Some r \<Longrightarrow> rec' ff ids = Some r"
    and "genField_001_body rec ms n id_path i f = Some r"
  shows "genField_001_body rec' ms n id_path i f = Some r"
  using assms(2)
  unfolding genField_001_body_def Let_def
  by (auto split: if_splits list.splits option.splits sum.splits dest!: assms(1))

lemma genField_001_mono:
  "genField_001 n ms ff id_path = Some r \<Longrightarrow> genField_001 (Suc n) ms ff id_path = Some r"
proof (induction n arbitrary: ff id_path r)
  case 0
  then show ?case by simp
next
  case (Suc n)
  have "for_range (genField_001_body (genField_001 (Suc n) ms) ms (length ff) id_path) 0 ff [] = Some r"
  proof (rule for_range_mono[where body = "genField_001_body (genField_001 n ms) ms (length ff) id_path"])
    fix i f r'
    assume "genField_001_body (genField_001 n ms) ms (length ff) id_path i f = Some r'"
    then show "genField_001_body (genField_001 (Suc n) ms) ms (length ff) id_path i f = Some r'"
      by (rule genField_001_body_mono[rotated]) (rule Suc.IH)
  next
    show "for_range (genField_001_body (genField_001 n ms) ms (length ff) id_path) 0 ff [] = Some r"
      using Suc.prems by simp
  qed
  then show ?case by simp
qed

section \<open>Precedence of the categories\<close>

text \<open>
  Claim C1, as amended. \<open>genField\<close> of the interface variant tests timestamp, map,
  repeated, message, primitive, in this order, the first match deciding, and each test
  selects its own text: a field of the reserved timestamp type gets the \<open>|| ""\<close>
  line whatever its label; a field whose type name ends in \<open>Entry\<close> gets the
  \<open>Object.entries\<close> reduction, the same for every label; a repeated field that is
  neither gets the guarded \<open>map\<close>; a message field that is none of these gets the
  nested object literal; every other field gets the \<open>|| zv(tag)\<close> line. \<open>initiate\<close>
  of main.go tests map, repeated, timestamp, message, primitive: a map-entry field gets
  the \<open>Object.entries\<close> reduction whatever its label; a repeated field that is no map
  gets \<open>|| []\<close>, also when its type is the timestamp type; only a non-repeated field of
  the timestamp type gets \<open>|| ""\<close>; a message field that is none of these gets
  \<open>new T(o.f || {})\<close>; every other field gets \<open>|| zv(tag)\<close>.
\<close>

theorem classification_precedence:
  "(isTimestamp (fTypeName f) \<longrightarrow>
      classify_000 f = Timestamp
      \<and> genField_000_body rec ms n id_path i f =
          Some (Inr (fName f @ '': '' @ strings_Join (id_path @ [fName f]) ''.'' @ '' || \"\"''
                     @ colon n i @ ''\<newline>'')))
   \<and> (isMap (fTypeName f) \<longrightarrow>
      classify_000 f = Map
      \<and> genField_000_body rec ms n id_path i f =
          (case GetField (ms (fTypeName f)) of
             _ # nestedValue # _ \<Rightarrow>
               (case rec (GetField (ms (fTypeName nestedValue))) [''v''] of
                  None \<Rightarrow> None
                | Some (Inl e) \<Rightarrow> Some (Inl e)
                | Some (Inr inner) \<Rightarrow>
                    Some (Inr (fName f @ '': Object.entries('' @ strings_Join (id_path @ [fName f]) ''.''
                               @ '').reduce((a, [k, v]) => {\<newline>''
                               @ ''a[k] = {\<newline>'' @ inner @ ''}\<newline>''
                               @ ''return a\<newline>''
                               @ ''}, {})'' @ colon n i @ ''\<newline>'')))
           | _ \<Rightarrow> Some (Inl IndexOutOfRange))
      \<and> genField_000_body rec ms n id_path i (f\<lparr>fLabel := l\<rparr>) = genField_000_body rec ms n id_path i f)
   \<and> (\<not> isTimestamp (fTypeName f) \<and> \<not> isMap (fTypeName f) \<and> isRepeated (fLabel f) \<longrightarrow>
      classify_000 f = Repeated
      \<and> genField_000_body rec ms n id_path i f =
          (if GetField (ms (fTypeName f)) = [] then
             Some (Inr (fName f @ '': '' @ strings_Join (id_path @ [fName f]) ''.'' @ '' ? ''
                        @ strings_Join (id_path @ [fName f]) ''.'' @ ''.map(v => {\<newline>''
                        @ ''return v || '' @ zv (fType f) @ ''\<newline>''
                        @ ''}) : []'' @ colon n i @ ''\<newline>''))
           else
             (case rec (GetField (ms (fTypeName f))) [''v''] of
                None \<Rightarrow> None
              | Some (Inl e) \<Rightarrow> Some (Inl e)
              | Some (Inr inner) \<Rightarrow>
                  Some (Inr (fName f @ '': '' @ strings_Join (id_path @ [fName f]) ''.'' @ '' ? ''
                             @ strings_Join (id_path @ [fName f]) ''.'' @ ''.map(v => {\<newline>''
                             @ ''return {\<newline>'' @ inner @ ''}\<newline>''
                             @ ''}) : []'' @ colon n i @ ''\<newline>'')))))
   \<and> (\<not> isTimestamp (fTypeName f) \<and> \<not> isMap (fTypeName f) \<and> \<not> isRepeated (fLabel f)
        \<and> isMessage (fType f) \<longrightarrow>
      classify_000 f = Message
      \<and> genField_000_body rec ms n id_path i f =
          (case rec (GetField (ms (fTypeName f))) (id_path @ [fName f]) of
             None \<Rightarrow> None
           | Some (Inl e) \<Rightarrow> Some (Inl e)
           | Some (Inr inner) \<Rightarrow>
               Some (Inr (fName f @ '': {\<newline>'' @ inner @ ''}'' @ colon n i @ ''\<newline>''))))
   \<and> (\<not> isTimestamp (fTypeName f) \<and> \<not> isMap (fTypeName f) \<and> \<not> isRepeated (fLabel f)
        \<and> \<not> isMessage (fType f) \<longrightarrow>
      classify_000 f = Scalar
      \<and> genField_000_body rec ms n id_path i f =
          Some (Inr (fName f @ '': '' @ strings_Join (id_path @ [fName f]) ''.'' @ '' || ''
                     @ zv (fType f) @ colon n i @ ''\<newline>'')))
   \<and> (isMap (fTypeName f) \<longrightarrow>
      classify_initiate f = Map
      \<and> initiate message f =
          (case message_nested_type message of
             [] \<Rightarrow> Inl IndexOutOfRange
           | msg # _ \<Rightarrow>
               (case message_field msg of
                  _ # value # _ \<Rightarrow>
                    (case getTypeScriptType msg value of
                       Inl e \<Rightarrow> Inl e
                     | Inr t \<Rightarrow>
                         Inr (''this.'' @ fName f @ '' = Object.entries(o.'' @ fName f
                              @ '').reduce((a, [k, v]) => {a[k] = new '' @ t
                              @ ''(v || {}); return a}, {})''))
                | _ \<Rightarrow> Inl IndexOutOfRange))
      \<and> initiate message (f\<lparr>fLabel := l\<rparr>) = initiate message f)
   \<and> (\<not> isMap (fTypeName f) \<and> isRepeated (fLabel f) \<longrightarrow>
      classify_initiate f = Repeated
      \<and> initiate message f = Inr (''this.'' @ fName f @ '' = o.'' @ fName f @ '' || []''))
   \<and> (\<not> isMap (fTypeName f) \<and> \<not> isRepeated (fLabel f) \<and> isTimestamp (fTypeName f) \<longrightarrow>
      classify_initiate f = Timestamp
      \<and> initiate message f = Inr (''this.'' @ fName f @ '' = o.'' @ fName f @ '' || \"\"''))
   \<and> (\<not> isMap (fTypeName f) \<and> \<not> isRepeated (fLabel f) \<and> \<not> isTimestamp (fTypeName f)
        \<and> isMessage (fType f) \<longrightarrow>
      classify_initiate f = Message
      \<and> initiate message f =
          Inr (''this.'' @ fName f @ '' = new '' @ last_part (fTypeName f)
               @ ''(o.'' @ fName f @ '' || {})''))
   \<and> (\<not> isMap (fTypeName f) \<and> \<not> isRepeated (fLabel f) \<and> \<not> isTimestamp (fTypeName f)
        \<and> \<not> isMessage (fType f) \<longrightarrow>
      classify_initiate f = Scalar
      \<and> initiate message f =
          Inr (''this.'' @ fName f @ '' = o.'' @ fName f @ '' || '' @ zv (fType f)))"
proof -
  have ts: "isMap (fTypeName f) \<Longrightarrow> \<not> isTimestamp (fTypeName f)"
    using isTimestamp_not_isMap by blast
  have 1: "isTimestamp (fTypeName f) \<longrightarrow>
      classify_000 f = Timestamp
      \<and> genField_000_body rec ms n id_path i f =
          Some (Inr (fName f @ '': '' @ strings_Join (id_path @ [fName f]) ''.'' @ '' || \"\"''
                     @ colon n i @ ''\<newline>''))"
    by (simp add: classify_000_def genField_000_body_def)
  have 2: "isMap (fTypeName f) \<longrightarrow>
      classify_000 f = Map
      \<and> genField_000_body rec ms n id_path i f =
          (case GetField (ms (fTypeName f)) of
             _ # nestedValue # _ \<Rightarrow>
               (case rec (GetField (ms (fTypeName nestedValue))) [''v''] of
                  None \<Rightarrow> None
                | Some (Inl e) \<Rightarrow> Some (Inl e)
                | Some (Inr inner) \<Rightarrow>
                    Some (Inr (fName f @ '': Object.entries('' @ strings_Join (id_path @ [fName f]) ''.''
                               @ '').reduce((a, [k, v]) => {\<newline>''
                               @ ''a[k] = {\<newline>'' @ inner @ ''}\<newline>''
                               @ ''return a\<newline>''
                               @ ''}, {})'' @ colon n i @ ''\<newline>'')))
           | _ \<Rightarrow> Some (Inl IndexOutOfRange))
      \<and> genField_000_body rec ms n id_path i (f\<lparr>fLabel := l\<rparr>) = genField_000_body rec ms n id_path i f"
    using ts by (auto simp: classify_000_def genField_000_body_def Let_def
                      cong: list.case_cong option.case_cong sum.case_cong)
  have 3: "\<not> isTimestamp (fTypeName f) \<and> \<not> isMap (fTypeName f) \<and> isRepeated (fLabel f) \<longrightarrow>
      classify_000 f = Repeated
      \<and> genField_000_body rec ms n id_path i f =
          (if GetField (ms (fTypeName f)) = [] then
             Some (Inr (fName f @ '': '' @ strings_Join (id_path @ [fName f]) ''.'' @ '' ? ''
                        @ strings_Join (id_path @ [fName f]) ''.'' @ ''.map(v => {\<newline>''
                        @ ''return v || '' @ zv (fType f) @ ''\<newline>''
                        @ ''}) : []'' @ colon n i @ ''\<newline>''))
           else
             (case rec (GetField (ms (fTypeName f))) [''v''] of
                None \<Rightarrow> None
              | Some (Inl e) \<Rightarrow> Some (Inl e)
              | Some (Inr inner) \<Rightarrow>
                  Some (Inr (fName f @ '': '' @ strings_Join (id_path @ [fName f]) ''.'' @ '' ? ''
                             @ strings_Join (id_path @ [fName f]) ''.'' @ ''.map(v => {\<newline>''
                             @ ''return {\<newline>'' @ inner @ ''}\<newline>''
                             @ ''}) : []'' @ colon n i @ ''\<newline>''))))"
    by (simp add: classify_000_def genField_000_body_def Let_def)
  have 4: "\<not> isTimestamp (fTypeName f) \<and> \<not> isMap (fTypeName f) \<and> \<not> isRepeated (fLabel f)
        \<and> isMessage (fType f) \<longrightarrow>
      classify_000 f = Message
      \<and> genField_000_body rec ms n id_path i f =
          (case rec (GetField (ms (fTypeName f))) (id_path @ [fName f]) of
             None \<Rightarrow> None
           | Some (Inl e) \<Rightarrow> Some (Inl e)
           | Some (Inr inner) \<Rightarrow>
               Some (Inr (fName f @ '': {\<newline>'' @ inner @ ''}'' @ colon n i @ ''\<newline>'')))"
    by (simp add: classify_000_def genField_000_body_def Let_def)
  have 5: "\<not> isTimestamp (fTypeName f) \<and> \<not> isMap (fTypeName f) \<and> \<not> isRepeated (fLabel f)
        \<and> \<not> isMessage (fType f) \<longrightarrow>
      classify_000 f = Scalar
      \<and> genField_000_body rec ms n id_path i f =
          Some (Inr (fName f @ '': '' @ strings_Join (id_path @ [fName f]) ''.'' @ '' || ''
                     @ zv (fType f) @ colon n i @ ''\<newline>''))"
    by (simp add: classify_000_def genField_000_body_def Let_def)
  have 6: "isMap (fTypeName f) \<longrightarrow>
      classify_initiate f = Map
      \<and> initiate message f =
          (case message_nested_type message of
             [] \<Rightarrow> Inl IndexOutOfRange
           | msg # _ \<Rightarrow>
               (case message_field msg of
                  _ # value # _ \<Rightarrow>
                    (case getTypeScriptType msg value of
                       Inl e \<Rightarrow> Inl e
                     | Inr t \<Rightarrow>
                         Inr (''this.'' @ fName f @ '' = Object.entries(o.'' @ fName f
                              @ '').reduce((a, [k, v]) => {a[k] = new '' @ t
                              @ ''(v || {}); return a}, {})''))
                | _ \<Rightarrow> Inl IndexOutOfRange))
      \<and> initiate message (f\<lparr>fLabel := l\<rparr>) = initiate message f"
    by (auto simp: classify_initiate_def initiate_def
             cong: list.case_cong option.case_cong sum.case_cong)
  have 7: "\<not> isMap (fTypeName f) \<and> isRepeated (fLabel f) \<longrightarrow>
      classify_initiate f = Repeated
      \<and> initiate message f = Inr (''this.'' @ fName f @ '' = o.'' @ fName f @ '' || []'')"
    by (simp add: classify_initiate_def initiate_def)
  have 8: "\<not> isMap (fTypeName f) \<and> \<not> isRepeated (fLabel f) \<and> isTimestamp (fTypeName f) \<longrightarrow>
      classify_initiate f = Timestamp
      \<and> initiate message f = Inr (''this.'' @ fName f @ '' = o.'' @ fName f @ '' || \"\"'')"
    by (simp add: classify_initiate_def initiate_def)
  have 9: "\<not> isMap (fTypeName f) \<and> \<not> isRepeated (fLabel f) \<and> \<not> isTimestamp (fTypeName f)
        \<and> isMessage (fType f) \<longrightarrow>
      classify_initiate f = Message
      \<and> initiate message f =
          Inr (''this.'' @ fName f @ '' = new '' @ last_part (fTypeName f)
               @ ''(o.'' @ fName f @ '' || {})'')"
    by (simp add: classify_initiate_def initiate_def)
  have 10: "\<not> isMap (fTypeName f) \<and> \<not> isRepeated (fLabel f) \<and> \<not> isTimestamp (fTypeName f)
        \<and> \<not> isMessage (fType f) \<longrightarrow>
      classify_initiate f = Scalar
      \<and> initiate message f =
          Inr (''this.'' @ fName f @ '' = o.'' @ fName f @ '' || '' @ zv (fType f))"
    by (simp add: classify_initiate_def initiate_def)
  from 1 2 3 4 5 6 7 8 9 10 show ?thesis by blast
qed

lemma field_stamps_facts:
  "isTimestamp (fTypeName field_stamps)" "isRepeated (fLabel field_stamps)"
  "\<not> isMap (fTypeName field_stamps)"
  by (simp_all add: field_stamps_def isTimestamp_def isRepeated_def isMap_def strings_HasSuffix_def)

theorem classification_precedence_witness:
  "isTimestamp (fTypeName field_stamps) \<and> isRepeated (fLabel field_stamps)
   \<and> classify_000 field_stamps = Timestamp
   \<and> genField_000_body (genField_000 0 Map.empty) Map.empty 1 [''data''] 0 field_stamps
       = Some (Inr ''stamps: data.stamps || \"\"\<newline>'')
   \<and> classify_initiate field_stamps = Repeated
   \<and> initiate Point field_stamps = Inr ''this.stamps = o.stamps || []''"
  using classification_precedence[where f = field_stamps and rec = "genField_000 0 Map.empty"
      and ms = Map.empty and n = 1 and id_path = "[''data'']" and i = 0 and message = Point]
    field_stamps_facts
  by (simp add: field_stamps_def colon_def)

text \<open>
  The claim as stated fails on \<open>initiate\<close>: the repeated timestamp field \<open>stamps\<close>
  gets the statement of a repeated field, not that of a timestamp.
\<close>

theorem repeated_timestamp_counterexample:
  "isTimestamp (fTypeName field_stamps) \<and> isRepeated (fLabel field_stamps)
   \<and> classify_initiate field_stamps \<noteq> Timestamp
   \<and> initiate Point field_stamps = Inr ''this.stamps = o.stamps || []''
   \<and> initiate Point field_stamps \<noteq> Inr ''this.stamps = o.stamps || \"\"''"
  using field_stamps_facts
  by (simp add: classify_initiate_def initiate_def field_stamps_def)

section \<open>Repeated fields\<close>

text \<open>
  Claim C2, as amended. For a field that takes the repeated branch, \<open>genField\<close> of the
  interface variant emits \<open>name: p ? p.map(v => {...}) : []\<close> for the access path
  \<open>p\<close>: the source is guarded and the fallback is the empty sequence. An element is
  mapped to \<open>v || zv(tag)\<close> when the element type has no registered fields, and
  otherwise to an object literal that \<open>genField\<close> builds from those fields with the
  access path \<open>v\<close>. \<open>genField\<close> of the two JavaScript variants emits the same mapping
  without the guard and without a fallback, \<open>name: p.map(v => {...})\<close>. \<open>initiate\<close>
  of main.go emits \<open>this.name = o.name || []\<close>: the fallback, and no mapping of the
  elements.
\<close>

theorem repeated_emission:
  "(classify_000 f = Repeated \<longrightarrow>
      genField_000_body rec ms n id_path i f =
        (if GetField (ms (fTypeName f)) = [] then
           Some (Inr (fName f @ '': '' @ strings_Join (id_path @ [fName f]) ''.'' @ '' ? ''
                      @ strings_Join (id_path @ [fName f]) ''.'' @ ''.map(v => {\<newline>''
                      @ ''return v || '' @ zv (fType f) @ ''\<newline>''
                      @ ''}) : []'' @ colon n i @ ''\<newline>''))
         else
           (case rec (GetField (ms (fTypeName f))) [''v''] of
              None \<Rightarrow> None
            | Some (Inl e) \<Rightarrow> Some (Inl e)
            | Some (Inr inner) \<Rightarrow>
                Some (Inr (fName f @ '': '' @ strings_Join (id_path @ [fName f]) ''.'' @ '' ? ''
                           @ strings_Join (id_path @ [fName f]) ''.'' @ ''.map(v => {\<newline>''
                           @ ''return {\<newline>'' @ inner @ ''}\<newline>''
                           @ ''}) : []'' @ colon n i @ ''\<newline>''))))
      \<and> (\<forall>out. genField_000_body rec ms n id_path i f = Some (Inr out) \<longrightarrow>
             guards_source (strings_Join (id_path @ [fName f]) ''.'') out))
   \<and> (classify_001 f = Repeated \<longrightarrow>
      genField_001_body rec ms n id_path i f =
        (if GetField (ms (fTypeName f)) = [] then
           Some (Inr (fName f @ '': '' @ strings_Join (id_path @ [fName f]) ''.''
                      @ ''.map(v => {\<newline>''
                      @ ''return v || '' @ zv (fType f) @ ''\<newline>''
                      @ ''})'' @ colon n i @ ''\<newline>''))
         else
           (case rec (GetField (ms (fTypeName f))) [''v''] of
              None \<Rightarrow> None
            | Some (Inl e) \<Rightarrow> Some (Inl e)
            | Some (Inr inner) \<Rightarrow>
                Some (Inr (fName f @ '': '' @ strings_Join (id_path @ [fName f]) ''.''
                           @ ''.map(v => {\<newline>''
                           @ ''return {\<newline>'' @ inner @ ''}\<newline>''
                           @ ''})'' @ colon n i @ ''\<newline>'')))))
   \<and> (classify_002 f = Repeated \<longrightarrow>
      genField_002_body rec ms n id_path i f = genField_001_body rec ms n id_path i f)
   \<and> (classify_initiate f = Repeated \<longrightarrow>
      initiate message f = Inr (''this.'' @ fName f @ '' = o.'' @ fName f @ '' || []''))"
proof -
  have r0: "classify_000 f = Repeated \<Longrightarrow>
     \<not> isTimestamp (fTypeName f) \<and> \<not> isMap (fTypeName f) \<and> isRepeated (fLabel f)"
    by (simp add: classify_000_def split: if_splits)
  have r1: "classify_001 f = Repeated \<Longrightarrow> isRepeated (fLabel f)"
    by (simp add: classify_001_def split: if_splits)
  have r2: "classify_002 f = Repeated \<Longrightarrow> \<not> isMap (fTypeName f) \<and> isRepeated (fLabel f)"
    by (simp add: classify_002_def split: if_splits)
  have r3: "classify_initiate f = Repeated \<Longrightarrow> \<not> isMap (fTypeName f) \<and> isRepeated (fLabel f)"
    by (simp add: classify_initiate_def split: if_splits)
  have a: "classify_000 f = Repeated \<longrightarrow>
      genField_000_body rec ms n id_path i f =
        (if GetField (ms (fTypeName f)) = [] then
           Some (Inr (fName f @ '': '' @ strings_Join (id_path @ [fName f]) ''.'' @ '' ? ''
                      @ strings_Join (id_path @ [fName f]) ''.'' @ ''.map(v => {\<newline>''
                      @ ''return v || '' @ zv (fType f) @ ''\<newline>''
                      @ ''}) : []'' @ colon n i @ ''\<newline>''))
         else
           (case rec (GetField (ms (fTypeName f))) [''v''] of
              None \<Rightarrow> None
            | Some (Inl e) \<Rightarrow> Some (Inl e)
            | Some (Inr inner) \<Rightarrow>
                Some (Inr (fName f @ '': '' @ strings_Join (id_path @ [fName f]) ''.'' @ '' ? ''
                           @ strings_Join (id_path @ [fName f]) ''.'' @ ''.map(v => {\<newline>''
                           @ ''return {\<newline>'' @ inner @ ''}\<newline>''
                           @ ''}) : []'' @ colon n i @ ''\<newline>''))))"
    using r0 by (simp add: genField_000_body_def Let_def)
  have g: "guards_source p (nm @ '': '' @ p @ '' ? '' @ rest)" for p nm rest
    unfolding guards_source_def
    using sublist_mid[of "p @ '' ? ''" "nm @ '': ''" rest] by simp
  have b: "classify_000 f = Repeated \<longrightarrow>
      (\<forall>out. genField_000_body rec ms n id_path i f = Some (Inr out) \<longrightarrow>
             guards_source (strings_Join (id_path @ [fName f]) ''.'') out)"
  proof (intro impI allI)
    fix out
    assume c: "classify_000 f = Repeated"
      and o: "genField_000_body rec ms n id_path i f = Some (Inr out)"
    from a c o obtain rest where
      "out = fName f @ '': '' @ strings_Join (id_path @ [fName f]) ''.'' @ '' ? '' @ rest"
      by (auto split: if_splits option.splits sum.splits)
    then show "guards_source (strings_Join (id_path @ [fName f]) ''.'') out"
      using g by simp
  qed
  have c: "classify_001 f = Repeated \<longrightarrow>
      genField_001_body rec ms n id_path i f =
        (if GetField (ms (fTypeName f)) = [] then
           Some (Inr (fName f @ '': '' @ strings_Join (id_path @ [fName f]) ''.''
                      @ ''.map(v => {\<newline>''
                      @ ''return v || '' @ zv (fType f) @ ''\<newline>''
                      @ ''})'' @ colon n i @ ''\<newline>''))
         else
           (case rec (GetField (ms (fTypeName f))) [''v''] of
              None \<Rightarrow> None
            | Some (Inl e) \<Rightarrow> Some (Inl e)
            | Some (Inr inner) \<Rightarrow>
                Some (Inr (fName f @ '': '' @ strings_Join (id_path @ [fName f]) ''.''
                           @ ''.map(v => {\<newline>''
                           @ ''return {\<newline>'' @ inner @ ''}\<newline>''
                           @ ''})'' @ colon n i @ ''\<newline>''))))"
    using r1 by (simp add: genField_001_body_def Let_def)
  have d: "classify_002 f = Repeated \<longrightarrow>
      genField_002_body rec ms n id_path i f = genField_001_body rec ms n id_path i f"
    using r2 by (simp add: genField_002_body_def genField_001_body_def Let_def)
  have e: "classify_initiate f = Repeated \<longrightarrow>
      initiate message f = Inr (''this.'' @ fName f @ '' = o.'' @ fName f @ '' || []'')"
    using r3 by (simp add: initiate_def)
  from a b c d e show ?thesis by blast
qed

lemma field_tags_facts:
  "classify_000 field_tags = Repeated" "classify_001 field_tags = Repeated"
  "classify_002 field_tags = Repeated" "classify_initiate field_tags = Repeated"
  by (simp_all add: classify_000_def classify_001_def classify_002_def classify_initiate_def
      field_tags_def isTimestamp_def isMap_def strings_HasSuffix_def isRepeated_def)

theorem repeated_emission_witness:
  "classify_000 field_tags = Repeated
   \<and> genField_000_body (genField_000 0 Map.empty) Map.empty 1 [''data''] 0 field_tags
       = Some (Inr ''tags: data.tags ? data.tags.map(v => {\<newline>return v || \"\"\<newline>}) : []\<newline>'')
   \<and> guards_source ''data.tags''
         ''tags: data.tags ? data.tags.map(v => {\<newline>return v || \"\"\<newline>}) : []\<newline>''
   \<and> classify_001 field_tags = Repeated
   \<and> genField_001_body (genField_000 0 Map.empty) Map.empty 1 [''data''] 0 field_tags
       = Some (Inr ''tags: data.tags.map(v => {\<newline>return v || \"\"\<newline>})\<newline>'')
   \<and> classify_initiate field_tags = Repeated
   \<and> initiate Point field_tags = Inr ''this.tags = o.tags || []''"
proof -
  note t = repeated_emission[where f = field_tags and rec = "genField_000 0 Map.empty"
      and ms = Map.empty and n = 1 and id_path = "[''data'']" and i = 0 and message = Point]
  show ?thesis
    using t field_tags_facts
    by (simp add: field_tags_def GetField_def colon_def)
qed

text \<open>
  The claim as stated fails on the first JavaScript variant: the line for the repeated
  string field \<open>tags\<close> calls \<open>data.tags.map\<close> with no guard on \<open>data.tags\<close> and
  no \<open>: []\<close> fallback, and a call on an absent value throws in JavaScript.
\<close>

theorem repeated_unguarded_counterexample:
  "classify_001 field_tags = Repeated
   \<and> genField_001 1 Map.empty [field_tags] [''data'']
       = Some (Inr ''tags: data.tags.map(v => {\<newline>return v || \"\"\<newline>})\<newline>'')
   \<and> \<not> guards_source ''data.tags'' ''tags: data.tags.map(v => {\<newline>return v || \"\"\<newline>})\<newline>''
   \<and> \<not> sublist '': []'' ''tags: data.tags.map(v => {\<newline>return v || \"\"\<newline>})\<newline>''"
  by code_simp

section \<open>Map fields\<close>







section \<open>Field order and separators\<close>









section \<open>The method bindings\<close>

text \<open>
  Claim C5, as amended. In the binding that main.go's \<open>blueprint\<close> generates for a
  method, the fetch call is followed by the test \<open>res.status !== 200\<close>, which throws
  \<open>new Error(res.statusText)\<close>, and only then by \<open>res.json()\<close> and the
  reconstruction \<open>new OutputType(data)\<close>. In the bindings of the two JavaScript
  variants \<open>res.json()\<close> follows the fetch call directly, and the reconstruction
  follows it: the status is not tested.
\<close>

theorem status_check_by_variant:
  "(\<exists>pre post.
      blueprint_method m =
        pre
        @ TAB @ ''})\<newline>''
        @ TAB @ ''if (res.status !== 200) {\<newline>''
        @ TAB @ TAB @ ''throw new Error(res.statusText)\<newline>''
        @ TAB @ ''}\<newline>''
        @ TAB @ ''const data = await res.json()\<newline>''
        @ TAB @ ''return new '' @ m_OutputType m @ ''(data)\<newline>''
        @ post)
   \<and> (\<exists>pre post.
      blueprint_001_method ServiceName mj =
        pre
        @ TAB @ TAB @ ''body: JSON.stringify(input)\<newline>''
        @ TAB @ ''})\<newline>''
        @ TAB @ ''const data = await res.json()\<newline>''
        @ TAB @ js_Field mj @ ''\<newline>''
        @ post)
   \<and> (\<exists>pre post.
      blueprint_002_method ServiceName mj =
        pre
        @ TAB @ TAB @ ''body: JSON.stringify(input)\<newline>''
        @ TAB @ ''})\<newline>''
        @ TAB @ ''const data = await res.json()\<newline>''
        @ TAB @ js_Field mj @ ''\<newline>''
        @ post)"
proof -
  have a: "\<exists>pre post.
      blueprint_method m =
        pre
        @ TAB @ ''})\<newline>''
        @ TAB @ ''if (res.status !== 200) {\<newline>''
        @ TAB @ TAB @ ''throw new Error(res.statusText)\<newline>''
        @ TAB @ ''}\<newline>''
        @ TAB @ ''const data = await res.json()\<newline>''
        @ TAB @ ''return new '' @ m_OutputType m @ ''(data)\<newline>''
        @ post"
    unfolding blueprint_method_def
    by (intro exI[of _ "''\<newline>export const '' @ m_Name m @ '' = async (input: '' @ m_InputType m
       @ ''): Promise<'' @ m_OutputType m @ ''> => {\<newline>''
     @ TAB @ ''const meta = document.querySelector('meta[name=\"csrf-token\"]') as HTMLMetaElement\<newline>''
     @ TAB @ ''const token = meta.content\<newline>''
     @ TAB @ ''const res = await fetch('/twirp/trpc.'' @ m_Service m @ ''/'' @ m_Name m @ ''', {\<newline>''
     @ TAB @ TAB @ ''headers: {\<newline>''
     @ TAB @ TAB @ TAB @ '''X-CSRF-Token': token,\<newline>''
     @ TAB @ TAB @ TAB @ '''Content-Type': 'application/json'\<newline>''
     @ TAB @ TAB @ ''},\<newline>''
     @ TAB @ TAB @ ''credentials: 'same-origin',\<newline>''
     @ TAB @ TAB @ ''method: 'POST',\<newline>''
     @ TAB @ TAB @ ''body: JSON.stringify(input)\<newline>''"] exI[of _ "''}\<newline>''"]) simp
  have b: "\<exists>pre post.
      blueprint_001_method ServiceName mj =
        pre
        @ TAB @ TAB @ ''body: JSON.stringify(input)\<newline>''
        @ TAB @ ''})\<newline>''
        @ TAB @ ''const data = await res.json()\<newline>''
        @ TAB @ js_Field mj @ ''\<newline>''
        @ post"
    unfolding blueprint_001_method_def
    by (intro exI[of _ "''\<newline>const '' @ js_Name mj @ '' = async (input) => {\<newline>''
     @ TAB @ ''const res = await fetch('twirp/trpc.'' @ ServiceName @ ''/'' @ js_Name mj @ ''', {\<newline>''
     @ TAB @ TAB @ ''headers: {\<newline>''
     @ TAB @ TAB @ TAB @ '''Content-Type': 'application/json'\<newline>''
     @ TAB @ TAB @ ''},\<newline>''
     @ TAB @ TAB @ ''method: 'POST',\<newline>''"]
        exI[of _ "TAB @ ''return '' @ js_OutputName mj @ ''\<newline>'' @ ''}\<newline>''"]) simp
  have c: "\<exists>pre post.
      blueprint_002_method ServiceName mj =
        pre
        @ TAB @ TAB @ ''body: JSON.stringify(input)\<newline>''
        @ TAB @ ''})\<newline>''
        @ TAB @ ''const data = await res.json()\<newline>''
        @ TAB @ js_Field mj @ ''\<newline>''
        @ post"
    unfolding blueprint_002_method_def
    by (intro exI[of _ "''\<newline>const '' @ js_Name mj @ '' = async (input) => {\<newline>''
     @ TAB @ ''const token = document.querySelector('meta[name=\"csrf-token\"]').content\<newline>''
     @ TAB @ ''const res = await fetch('/twirp/trpc.'' @ ServiceName @ ''/'' @ js_Name mj @ ''', {\<newline>''
     @ TAB @ TAB @ ''headers: {\<newline>''
     @ TAB @ TAB @ TAB @ '''X-CSRF-Token': token,\<newline>''
     @ TAB @ TAB @ TAB @ '''Content-Type': 'application/json'\<newline>''
     @ TAB @ TAB @ ''},\<newline>''
     @ TAB @ TAB @ ''credentials: 'same-origin',\<newline>''
     @ TAB @ TAB @ ''method: 'POST',\<newline>''"]
        exI[of _ "TAB @ ''return '' @ js_OutputName mj @ ''\<newline>'' @ ''}\<newline>''"]) simp
  from a b c show ?thesis by blast
qed

text \<open>
  The claim as stated fails on the JavaScript variants: the binding of \<open>GetInfo\<close> holds
  no mention of the status and no \<open>throw\<close>, and it parses the response.
\<close>

theorem status_unchecked_counterexample:
  "\<not> sublist ''res.status'' (blueprint_002_method ''Haberdasher'' method_js_example)
   \<and> \<not> sublist ''throw'' (blueprint_002_method ''Haberdasher'' method_js_example)
   \<and> \<not> sublist ''res.status'' (blueprint_001_method ''Haberdasher'' method_js_example)
   \<and> \<not> sublist ''throw'' (blueprint_001_method ''Haberdasher'' method_js_example)
   \<and> sublist ''const data = await res.json()'' (blueprint_002_method ''Haberdasher'' method_js_example)
   \<and> sublist ''const data = await res.json()'' (blueprint_001_method ''Haberdasher'' method_js_example)"
  by code_simp

subsection \<open>The endpoint path\<close>

text \<open>
  Claim C6. The second JavaScript variant run on a schema whose service is named
  \<open>Users\<close>: the binding of its method \<open>GetInfo\<close> fetches
  \<open>/twirp/trpc.Haberdasher/GetInfo\<close>, and the name of the owning service occurs nowhere
  in the generated file.
\<close>

theorem haberdasher_path_fixed:
  "main_002 2 users_request =
     Some (Inr \<lparr>file_Name = ''shop.js'',
                file_Content = blueprint_002 [method_js_example] ''Haberdasher''
                                 (export [method_js_example])\<rparr>)
   \<and> sublist ''fetch('/twirp/trpc.Haberdasher/GetInfo', {''
         (blueprint_002 [method_js_example] ''Haberdasher'' (export [method_js_example]))
   \<and> \<not> sublist ''Users''
         (blueprint_002 [method_js_example] ''Haberdasher'' (export [method_js_example]))
   \<and> service_name service_users = ''Users''"
  by code_simp

text \<open>
  On every request on which that variant returns a file, the service segment of every
  binding is the constant.
\<close>

lemma main_002_service_constant:
  assumes "main_002 fuel req = Some (Inr a)"
  shows "\<exists>Ms. file_Content a =
           ''\<newline>'' @ concat (map (blueprint_002_method ''Haberdasher'') Ms)
           @ ''\<newline>'' @ export Ms @ ''\<newline>''"
  using assms
  by (auto simp: main_002_def Let_def blueprint_002_def
           split: option.splits sum.splits list.splits)

text \<open>
  For comparison, main.go: the names of the generated bindings are the pairs of owning
  service and method of the request, one binding per method and in the request's order,
  and every binding fetches \<open>/twirp/trpc.<Service>/<Name>\<close> with the JSON content
  type, the method POST and the serialized input as the body.
\<close>

lemma method_fold:
  "g_Methods (fold (method_step s) ms g) =
     g_Methods g @ map (\<lambda>m. \<lparr>m_Service = service_name s, m_Name = method_name m,
                              m_OutputType = GetName (g_messages g (method_output_type m)),
                              m_InputType = GetName (g_messages g (method_input_type m))\<rparr>) ms
   \<and> g_messages (fold (method_step s) ms g) = g_messages g
   \<and> g_classes (fold (method_step s) ms g) = g_classes g"
proof (induction ms arbitrary: g)
  case Nil
  show ?case by simp
next
  case (Cons m ms)
  have s: "g_Methods (method_step s m g) = g_Methods g @ [\<lparr>m_Service = service_name s, m_Name = method_name m,
                              m_OutputType = GetName (g_messages g (method_output_type m)),
                              m_InputType = GetName (g_messages g (method_input_type m))\<rparr>]"
    "g_messages (method_step s m g) = g_messages g"
    "g_classes (method_step s m g) = g_classes g"
    by (simp_all add: method_step_def Let_def)
  show ?case using Cons.IH[of "method_step s m g"] by (simp add: s)
qed

lemma service_loop_names:
  "map (\<lambda>M. (m_Service M, m_Name M)) (g_Methods (service_loop svcs g)) =
     map (\<lambda>M. (m_Service M, m_Name M)) (g_Methods g)
     @ concat (map (\<lambda>s. map (\<lambda>m. (service_name s, method_name m)) (service_method s)) svcs)"
  unfolding service_loop_def
proof (induction svcs arbitrary: g)
  case Nil
  show ?case by simp
next
  case (Cons s svcs)
  show ?case
    using Cons.IH[of "fold (method_step s) (service_method s) g"]
    by (simp add: method_fold comp_def)
qed

lemma message_loop_Methods:
  "message_loop package ms g = Inr g' \<Longrightarrow> g_Methods g' = g_Methods g"
proof (induction ms arbitrary: g)
  case Nil
  then show ?case by simp
next
  case (Cons m ms)
  from Cons.prems obtain g1 where s: "message_step package m g = Inr g1"
    and r: "message_loop package ms g1 = Inr g'"
    by (auto split: sum.splits)
  have "g_Methods g1 = g_Methods g"
    using s by (auto simp: message_step_def split: if_splits sum.splits)
  then show ?case using Cons.IH[OF r] by simp
qed

lemma file_loop_names:
  "file_loop fs g = Inr g' \<Longrightarrow>
   map (\<lambda>M. (m_Service M, m_Name M)) (g_Methods g') =
     map (\<lambda>M. (m_Service M, m_Name M)) (g_Methods g)
     @ concat (map (\<lambda>f. concat (map (\<lambda>s. map (\<lambda>m. (service_name s, method_name m))
                                          (service_method s)) (file_service f))) fs)"
proof (induction fs arbitrary: g)
  case Nil
  then show ?case by simp
next
  case (Cons f fs)
  from Cons.prems obtain g1 where m: "message_loop (file_package f) (file_message_type f) g = Inr g1"
    and r: "file_loop fs (service_loop (file_service f) g1) = Inr g'"
    by (auto split: sum.splits)
  show ?case
    using Cons.IH[OF r] message_loop_Methods[OF m]
    by (simp add: service_loop_names)
qed

theorem main_go_one_binding_per_method:
  assumes "main_go req = Inr a"
  shows "\<exists>cls Ms.
      file_Content a = concat cls @ concat (map blueprint_method Ms) @ ''\<newline>''
      \<and> map (\<lambda>M. (m_Service M, m_Name M)) Ms =
          concat (map (\<lambda>f. concat (map (\<lambda>s. map (\<lambda>m. (service_name s, method_name m))
                                               (service_method s)) (file_service f)))
                      (ProtoFile req))
      \<and> (\<forall>M\<in>set Ms. \<exists>pre post.
            blueprint_method M =
              pre
              @ TAB @ ''const res = await fetch('/twirp/trpc.'' @ m_Service M @ ''/'' @ m_Name M @ ''', {\<newline>''
              @ TAB @ TAB @ ''headers: {\<newline>''
              @ TAB @ TAB @ TAB @ '''X-CSRF-Token': token,\<newline>''
              @ TAB @ TAB @ TAB @ '''Content-Type': 'application/json'\<newline>''
              @ TAB @ TAB @ ''},\<newline>''
              @ TAB @ TAB @ ''credentials: 'same-origin',\<newline>''
              @ TAB @ TAB @ ''method: 'POST',\<newline>''
              @ TAB @ TAB @ ''body: JSON.stringify(input)\<newline>''
              @ TAB @ ''})\<newline>''
              @ post)"
proof -
  from assms obtain g where l: "file_loop (ProtoFile req) init_globals = Inr g"
    and c: "file_Content a = concat (g_classes g) @ blueprint (g_Methods g)"
    by (auto simp: main_go_def Let_def split: sum.splits list.splits)
  have n: "map (\<lambda>M. (m_Service M, m_Name M)) (g_Methods g) =
          concat (map (\<lambda>f. concat (map (\<lambda>s. map (\<lambda>m. (service_name s, method_name m))
                                               (service_method s)) (file_service f)))
                      (ProtoFile req))"
    using file_loop_names[OF l] by (simp add: init_globals_def)
  have b: "\<exists>pre post.
            blueprint_method M =
              pre
              @ TAB @ ''const res = await fetch('/twirp/trpc.'' @ m_Service M @ ''/'' @ m_Name M @ ''', {\<newline>''
              @ TAB @ TAB @ ''headers: {\<newline>''
              @ TAB @ TAB @ TAB @ '''X-CSRF-Token': token,\<newline>''
              @ TAB @ TAB @ TAB @ '''Content-Type': 'application/json'\<newline>''
              @ TAB @ TAB @ ''},\<newline>''
              @ TAB @ TAB @ ''credentials: 'same-origin',\<newline>''
              @ TAB @ TAB @ ''method: 'POST',\<newline>''
              @ TAB @ TAB @ ''body: JSON.stringify(input)\<newline>''
              @ TAB @ ''})\<newline>''
              @ post" for M
    unfolding blueprint_method_def
    by (intro exI[of _ "''\<newline>export const '' @ m_Name M @ '' = async (input: '' @ m_InputType M
       @ ''): Promise<'' @ m_OutputType M @ ''> => {\<newline>''
     @ TAB @ ''const meta = document.querySelector('meta[name=\"csrf-token\"]') as HTMLMetaElement\<newline>''
     @ TAB @ ''const token = meta.content\<newline>''"]
      exI[of _ "TAB @ ''if (res.status !== 200) {\<newline>''
     @ TAB @ TAB @ ''throw new Error(res.statusText)\<newline>''
     @ TAB @ ''}\<newline>''
     @ TAB @ ''const data = await res.json()\<newline>''
     @ TAB @ ''return new '' @ m_OutputType M @ ''(data)\<newline>''
     @ ''}\<newline>''"]) simp
  show ?thesis
    using c n b
    by (intro exI[of _ "g_classes g"] exI[of _ "g_Methods g"]) (simp add: blueprint_def)
qed

theorem main_go_one_binding_per_method_witness:
  "(case main_go users_request of
      Inl e \<Rightarrow> False
    | Inr a \<Rightarrow> sublist ''const res = await fetch('/twirp/trpc.Users/GetInfo', {'' (file_Content a))
   \<and> concat (map (\<lambda>f. concat (map (\<lambda>s. map (\<lambda>m. (service_name s, method_name m))
                                               (service_method s)) (file_service f)))
                      (ProtoFile users_request)) = [(''Users'', ''GetInfo'')]"
proof -
  have a: "(case main_go users_request of
      Inl e \<Rightarrow> False
    | Inr a \<Rightarrow> sublist ''const res = await fetch('/twirp/trpc.Users/GetInfo', {'' (file_Content a))"
    by code_simp
  then obtain r where r: "main_go users_request = Inr r" by (auto split: sum.splits)
  have b: "concat (map (\<lambda>f. concat (map (\<lambda>s. map (\<lambda>m. (service_name s, method_name m))
                                               (service_method s)) (file_service f)))
                      (ProtoFile users_request)) = [(''Users'', ''GetInfo'')]"
    using main_go_one_binding_per_method[OF r]
    by (simp add: users_request_def service_users_def method_get_info_def)
  from a b show ?thesis by blast
qed

section \<open>Methods whose types do not resolve\<close>












section \<open>The map test\<close>



section \<open>Type expressions of map fields\<close>

text \<open>The map case of \<open>getTypeScriptType\<close>, unfolded once.\<close>

lemma getTypeScriptType_map:
  assumes "isMap (fTypeName f)" and "fType f \<in> {TYPE_GROUP, TYPE_MESSAGE, TYPE_BYTES, TYPE_ENUM}"
  shows "getTypeScriptType message f =
           (case message_nested_type message of
              [] \<Rightarrow> Inl IndexOutOfRange
            | entry # _ \<Rightarrow>
                (case message_field entry of
                   key # value # _ \<Rightarrow>
                     (case getTypeScriptType entry key of
                        Inl e \<Rightarrow> Inl e
                      | Inr k \<Rightarrow>
                          (case getTypeScriptType entry value of
                             Inl e \<Rightarrow> Inl e
                           | Inr v \<Rightarrow> Inr (''{ [name: '' @ k @ '']: '' @ v @ '' }'')))
                 | _ \<Rightarrow> Inl IndexOutOfRange))"
  using assms isTimestamp_not_isMap[of "fTypeName f"]
  by (subst getTypeScriptType.simps) (auto split: list.splits sum.splits)

text \<open>
  Claim C10. For a field whose type name ends in \<open>Entry\<close> and whose tag reaches the
  \<open>default\<close> case of the type switch (a type name is only set for such tags),
  \<open>getTypeScriptType\<close> reads the first nested type of the owning message as the map
  entry. With no nested type the index panics, so a type expression is returned only
  when the owning message has a nested type. The result is built from the first two
  fields of that first nested type, whatever the field's own type name is: every other
  map field of the same message gets the same type expression.
\<close>

theorem map_type_from_first_nested:
  assumes "isMap (fTypeName f)"
    and "fType f \<in> {TYPE_GROUP, TYPE_MESSAGE, TYPE_BYTES, TYPE_ENUM}"
  shows "(message_nested_type message = [] \<longrightarrow>
            getTypeScriptType message f = Inl IndexOutOfRange)
    \<and> ((\<exists>t. getTypeScriptType message f = Inr t) \<longrightarrow> message_nested_type message \<noteq> [])
    \<and> (\<forall>entry rest. message_nested_type message = entry # rest \<longrightarrow>
          getTypeScriptType message f =
            (case message_field entry of
               key # value # _ \<Rightarrow>
                 (case getTypeScriptType entry key of
                    Inl e \<Rightarrow> Inl e
                  | Inr k \<Rightarrow>
                      (case getTypeScriptType entry value of
                         Inl e \<Rightarrow> Inl e
                       | Inr v \<Rightarrow> Inr (''{ [name: '' @ k @ '']: '' @ v @ '' }'')))
             | _ \<Rightarrow> Inl IndexOutOfRange))
    \<and> (\<forall>g. isMap (fTypeName g) \<and> fType g \<in> {TYPE_GROUP, TYPE_MESSAGE, TYPE_BYTES, TYPE_ENUM} \<longrightarrow>
          getTypeScriptType message g = getTypeScriptType message f)"
proof -
  note m = getTypeScriptType_map[OF assms, of message]
  have 1: "message_nested_type message = [] \<longrightarrow> getTypeScriptType message f = Inl IndexOutOfRange"
    by (simp add: m)
  have 2: "(\<exists>t. getTypeScriptType message f = Inr t) \<longrightarrow> message_nested_type message \<noteq> []"
    by (auto simp: m)
  have 3: "\<forall>entry rest. message_nested_type message = entry # rest \<longrightarrow>
          getTypeScriptType message f =
            (case message_field entry of
               key # value # _ \<Rightarrow>
                 (case getTypeScriptType entry key of
                    Inl e \<Rightarrow> Inl e
                  | Inr k \<Rightarrow>
                      (case getTypeScriptType entry value of
                         Inl e \<Rightarrow> Inl e
                       | Inr v \<Rightarrow> Inr (''{ [name: '' @ k @ '']: '' @ v @ '' }'')))
             | _ \<Rightarrow> Inl IndexOutOfRange)"
    by (simp add: m)
  have 4: "\<forall>g. isMap (fTypeName g) \<and> fType g \<in> {TYPE_GROUP, TYPE_MESSAGE, TYPE_BYTES, TYPE_ENUM} \<longrightarrow>
          getTypeScriptType message g = getTypeScriptType message f"
    using getTypeScriptType_map[of _ message] m by simp
  from 1 2 3 4 show ?thesis by blast
qed

lemma ex_item_meta: "getTypeScriptType Item field_meta = Inr ''{ [name: string]: Info }''"
  by code_simp

lemma ex_counts_entry: "getTypeScriptType CountsEntry field_value_number = Inr ''number''"
  by code_simp

theorem map_type_from_first_nested_witness:
  "isMap (fTypeName field_meta) \<and> isMap (fTypeName field_counts)
   \<and> fTypeName field_meta \<noteq> fTypeName field_counts
   \<and> message_nested_type Item = [MetaEntry, CountsEntry]
   \<and> getTypeScriptType Item field_meta = Inr ''{ [name: string]: Info }''
   \<and> getTypeScriptType Item field_counts = Inr ''{ [name: string]: Info }''
   \<and> getTypeScriptType CountsEntry field_value_number = Inr ''number''"
proof -
  have a: "isMap (fTypeName field_meta)" "isMap (fTypeName field_counts)"
    by (simp_all add: field_meta_def field_counts_def isMap_def strings_HasSuffix_def)
  have b: "fType field_meta \<in> {TYPE_GROUP, TYPE_MESSAGE, TYPE_BYTES, TYPE_ENUM}"
     "fType field_counts \<in> {TYPE_GROUP, TYPE_MESSAGE, TYPE_BYTES, TYPE_ENUM}"
    by (simp_all add: field_meta_def field_counts_def)
  have c: "getTypeScriptType Item field_counts = getTypeScriptType Item field_meta"
    using map_type_from_first_nested[OF a(1) b(1), of Item] a(2) b(2) by blast
  have d: "fTypeName field_meta \<noteq> fTypeName field_counts"
    by (simp add: field_meta_def field_counts_def)
  have e: "message_nested_type Item = [MetaEntry, CountsEntry]" by (simp add: Item_def)
  show ?thesis using a c d e ex_item_meta ex_counts_entry by simp
qed

end
